theory Spec2Isabelle
  imports Main "HOL-Library.Word" "HOL-Library.Sublist"
begin

section \<open>The numeric pipeline of main.cpp\<close>

text \<open>
  The program is one translation unit: \<^verbatim>\<open>format_vector\<close>, \<^verbatim>\<open>get_even_numbers\<close>,
  \<^verbatim>\<open>square_numbers\<close>, the template \<^verbatim>\<open>sum\<close> and \<^verbatim>\<open>main\<close>. A \<^verbatim>\<open>std::vector<T>\<close> is a
  list, a \<^verbatim>\<open>std::string\<close> is a \<open>string\<close>, and the C++ \<^verbatim>\<open>int\<close> is a 32-bit two's
  complement value: a \<open>32 word\<close>, read as a number by \<open>sint\<close>.

  C++ leaves the overflow of signed arithmetic undefined. The embedding gives \<^verbatim>\<open>*\<close> and
  \<^verbatim>\<open>+=\<close> on \<^verbatim>\<open>int\<close> the two's complement wrap-around of the machine multiplication and
  addition, which is what \<open>*\<close> and \<open>+\<close> on words are; wherever the mathematical result
  fits into 32 bits, this is the result that C++ defines.
\<close>

subsection \<open>Machine integers\<close>

type_synonym int32 = "32 word"

text \<open>
  The operator \<^verbatim>\<open>%\<close> of C++ truncates towards zero (the remainder has the sign of the
  dividend), unlike \<open>mod\<close> on \<open>int\<close>, which rounds towards minus infinity. The divisor in
  the program is the literal 2, so no division by zero and no overflow can occur.
\<close>

definition c_rem :: "int32 \<Rightarrow> int32 \<Rightarrow> int32" where
  "c_rem a b = word_of_int (sgn (sint a) * (\<bar>sint a\<bar> mod \<bar>sint b\<bar>))"

subsection \<open>format\_vector\<close>

text \<open>
  The loop of \<^verbatim>\<open>format_vector\<close> carries two variables, \<^verbatim>\<open>result\<close> and \<^verbatim>\<open>first\<close>; one
  iteration appends the separator unless \<^verbatim>\<open>first\<close> holds, then the label between two
  double quotes (character 0x22), and clears \<^verbatim>\<open>first\<close>.
\<close>

fun format_vector_loop :: "string \<times> bool \<Rightarrow> string list \<Rightarrow> string \<times> bool" where
  "format_vector_loop (result, first) [] = (result, first)"
| "format_vector_loop (result, first) (s # vec) =
     format_vector_loop
       ((if \<not> first then result @ '', '' else result) @ ([CHR 0x22] @ s @ [CHR 0x22]), False)
       vec"

definition format_vector :: "string list \<Rightarrow> string" where
  "format_vector vec = fst (format_vector_loop (''{'', True) vec) @ ''}''"

subsection \<open>get\_even\_numbers, square\_numbers and sum\<close>

text \<open>The two lambdas, and the vectors built from the filter view and the transform view.\<close>

definition is_even :: "int32 \<Rightarrow> bool" where
  "is_even n = (c_rem n 2 = 0)"

definition get_even_numbers :: "int32 list \<Rightarrow> int32 list" where
  "get_even_numbers numbers = filter is_even numbers"

definition square :: "int32 \<Rightarrow> int32" where
  "square n = n * n"

definition square_numbers :: "int32 list \<Rightarrow> int32 list" where
  "square_numbers numbers = map square numbers"

text \<open>
  The template \<^verbatim>\<open>sum\<close> is constrained to integral types: the model is generic in the
  width of the word, which covers the integer types of a fixed width (\<^verbatim>\<open>main\<close> calls it
  at \<^verbatim>\<open>int\<close>), not \<^verbatim>\<open>bool\<close>, whose \<^verbatim>\<open>+=\<close> does not wrap. Its loop carries
  \<^verbatim>\<open>total\<close>, here \<open>tot\<close>.
\<close>

fun sum_loop :: "'a::len word \<Rightarrow> 'a word list \<Rightarrow> 'a word" where
  "sum_loop tot [] = tot"
| "sum_loop tot (num # numbers) = sum_loop (tot + num) numbers"

definition sum_numbers :: "'a::len word list \<Rightarrow> 'a word" where
  "sum_numbers numbers = sum_loop 0 numbers"

subsection \<open>std::to\_string and std::format\<close>

text \<open>
  \<^verbatim>\<open>std::to_string(int)\<close> is the decimal representation, with a minus sign for a
  negative value. \<^verbatim>\<open>std::format\<close> is used with format strings that hold one
  replacement field \<^verbatim>\<open>{}\<close> and no other brace: the argument takes the place of the
  field, a string as it is and an \<^verbatim>\<open>int\<close> in decimal.
\<close>

fun digits :: "nat \<Rightarrow> string" where
  "digits n =
     (if n < 10 then [''0123456789'' ! n]
      else digits (n div 10) @ [''0123456789'' ! (n mod 10)])"

definition to_string :: "int32 \<Rightarrow> string" where
  "to_string n =
     (if sint n < 0 then ''-'' @ digits (nat (- sint n)) else digits (nat (sint n)))"

fun format_str :: "string \<Rightarrow> string \<Rightarrow> string" where
  "format_str [] arg = []"
| "format_str [c] arg = [c]"
| "format_str (c # d # fmt) arg =
     (if c = CHR ''{'' \<and> d = CHR ''}'' then arg @ fmt
      else c # format_str (d # fmt) arg)"

definition format_int :: "string \<Rightarrow> int32 \<Rightarrow> string" where
  "format_int fmt n = format_str fmt (to_string n)"

subsection \<open>main\<close>

text \<open>
  The state of \<^verbatim>\<open>main\<close> is what has been written to standard output: \<^verbatim>\<open>main\<close> takes
  it and returns its exit status with the new contents.
\<close>

definition main :: "string \<Rightarrow> int \<times> string" where
  "main cout =
     (let numbers = [1, 2, 3, 4, 5, 6];
          evens = get_even_numbers numbers;
          squared_evens = square_numbers evens;
          tot = sum_numbers squared_evens;
          original_str = map to_string numbers;
          evens_str = map to_string evens;
          squared_evens_str = map to_string squared_evens;
          cout = cout @ format_str ''Original numbers: {}\<newline>'' (format_vector original_str);
          cout = cout @ format_str ''Even numbers: {}\<newline>'' (format_vector evens_str);
          cout = cout @ format_str ''Squared even numbers: {}\<newline>''
                          (format_vector squared_evens_str);
          cout = cout @ format_int ''Sum of squared even numbers: {}\<newline>'' tot
      in (0, cout))"

subsection \<open>The rendering as the specification words it\<close>

text \<open>
  The specification describes the rendering without a loop: an opening brace, each label
  between double quotes, the quoted labels joined by a comma and a space in input order,
  a closing brace. These three definitions follow those words, not the code; they are
  compared with \<open>format_vector\<close> below.
\<close>

definition quote_label :: "string \<Rightarrow> string" where
  "quote_label s = [CHR 0x22] @ s @ [CHR 0x22]"

fun join :: "string \<Rightarrow> string list \<Rightarrow> string" where
  "join sep [] = []"
| "join sep [s] = s"
| "join sep (s # t # ss) = s @ sep @ join sep (t # ss)"

definition render_spec :: "string list \<Rightarrow> string" where
  "render_spec labels = ''{'' @ join '', '' (map quote_label labels) @ ''}''"

subsection \<open>The program with its failures as values\<close>

text \<open>
  The definitions above compute the results. To say that the program cannot fail, the
  primitives of the source that can fail are given an error result, and the functions
  that call them pass it on:
  \<^item> \<^verbatim>\<open>%\<close> has no result for the divisor 0 and for the least \<^verbatim>\<open>int\<close> divided by -1; the
    division instruction traps there, and the process ends with a signal;
  \<^item> \<^verbatim>\<open>std::format\<close> throws \<^verbatim>\<open>std::format_error\<close> for a format string that is not valid
    for its arguments: an unmatched brace, or a replacement field with no argument left.
    \<^verbatim>\<open>main\<close> catches nothing, so the exception ends the process through
    \<^verbatim>\<open>std::terminate\<close>, with a status other than 0.
  Nothing else in the source can fail: \<^verbatim>\<open>*\<close> and \<^verbatim>\<open>+=\<close> wrap, as said at the beginning,
  the loops run over finite vectors, and the source has no \<^verbatim>\<open>throw\<close>, no call of
  \<^verbatim>\<open>exit\<close> and the single \<^verbatim>\<open>return 0\<close>. The exhaustion of memory is not modelled.

  \<open>format_checked\<close> reads literal characters, the escapes \<^verbatim>\<open>{{\<close> and \<^verbatim>\<open>}}\<close>, and the
  replacement field \<^verbatim>\<open>{}\<close>, which takes the next argument. A field with an index or a
  format specification does not occur in the program; the model refuses it, so that it
  never reports a success that \<^verbatim>\<open>std::format\<close> would not have.
\<close>

datatype failure = Division_Trap | Format_Error

definition c_rem_checked :: "int32 \<Rightarrow> int32 \<Rightarrow> failure + int32" where
  "c_rem_checked a b =
     (if b = 0 \<or> (a = - 2147483648 \<and> b = - 1) then Inl Division_Trap
      else Inr (c_rem a b))"

definition is_even_checked :: "int32 \<Rightarrow> failure + bool" where
  "is_even_checked n =
     (case c_rem_checked n 2 of Inl e \<Rightarrow> Inl e | Inr r \<Rightarrow> Inr (r = 0))"

fun get_even_numbers_checked :: "int32 list \<Rightarrow> failure + int32 list" where
  "get_even_numbers_checked [] = Inr []"
| "get_even_numbers_checked (n # numbers) =
     (case is_even_checked n of
        Inl e \<Rightarrow> Inl e
      | Inr keep \<Rightarrow>
          (case get_even_numbers_checked numbers of
             Inl e \<Rightarrow> Inl e
           | Inr evens \<Rightarrow> Inr (if keep then n # evens else evens)))"

definition emit :: "string \<Rightarrow> failure + string \<Rightarrow> failure + string" where
  "emit s r = (case r of Inl e \<Rightarrow> Inl e | Inr t \<Rightarrow> Inr (s @ t))"

fun format_checked :: "string \<Rightarrow> string list \<Rightarrow> failure + string" where
  "format_checked [] args = Inr []"
| "format_checked [c] args =
     (if c = CHR ''{'' \<or> c = CHR ''}'' then Inl Format_Error else Inr [c])"
| "format_checked (c # d # fmt) args =
     (if c = CHR ''{'' \<and> d = CHR ''{'' then emit ''{'' (format_checked fmt args)
      else if c = CHR ''}'' \<and> d = CHR ''}'' then emit ''}'' (format_checked fmt args)
      else if c = CHR ''{'' \<and> d = CHR ''}'' then
        (case args of
           [] \<Rightarrow> Inl Format_Error
         | arg # args' \<Rightarrow> emit arg (format_checked fmt args'))
      else if c = CHR ''{'' \<or> c = CHR ''}'' then Inl Format_Error
      else emit [c] (format_checked (d # fmt) args))"

text \<open>
  \<open>run_checked\<close> is the body of \<^verbatim>\<open>main\<close> after its first line, with the vector
  \<^verbatim>\<open>numbers\<close> as a parameter; \<open>main_checked\<close> runs it on the vector of the source. A
  failure ends the run; the run that reaches \<^verbatim>\<open>return 0\<close> gives the status 0 and the
  contents of standard output.
\<close>

definition run_checked :: "int32 list \<Rightarrow> string \<Rightarrow> failure + int \<times> string" where
  "run_checked numbers cout =
     (case get_even_numbers_checked numbers of
        Inl e \<Rightarrow> Inl e
      | Inr evens \<Rightarrow>
          (let squared_evens = square_numbers evens;
               tot = sum_numbers squared_evens;
               original_str = map to_string numbers;
               evens_str = map to_string evens;
               squared_evens_str = map to_string squared_evens
           in case format_checked ''Original numbers: {}\<newline>'' [format_vector original_str] of
                Inl e \<Rightarrow> Inl e
              | Inr line1 \<Rightarrow>
           (case format_checked ''Even numbers: {}\<newline>'' [format_vector evens_str] of
                Inl e \<Rightarrow> Inl e
              | Inr line2 \<Rightarrow>
           (case format_checked ''Squared even numbers: {}\<newline>''
                   [format_vector squared_evens_str] of
                Inl e \<Rightarrow> Inl e
              | Inr line3 \<Rightarrow>
           (case format_checked ''Sum of squared even numbers: {}\<newline>'' [to_string tot] of
                Inl e \<Rightarrow> Inl e
              | Inr line4 \<Rightarrow> Inr (0, cout @ line1 @ line2 @ line3 @ line4))))))"

definition main_checked :: "string \<Rightarrow> failure + int \<times> string" where
  "main_checked cout = run_checked [1, 2, 3, 4, 5, 6] cout"

section \<open>Auxiliary facts\<close>

subsection \<open>Parity\<close>

lemma c_rem_two: "c_rem n 2 = word_of_int (sgn (sint n) * (\<bar>sint n\<bar> mod 2))"
  by (simp add: c_rem_def)

text \<open>
  The truncating remainder by 2 is 0, 1 or -1, and it is 0 exactly for the even values:
  the test of the lambda agrees with mathematical parity, also on negative numbers.
\<close>

lemma is_even_iff: "is_even n \<longleftrightarrow> even (sint n)"
proof (cases "even (sint n)")
  case True
  then have "\<bar>sint n\<bar> mod 2 = 0" by presburger
  then have "c_rem n 2 = 0" by (simp add: c_rem_two)
  with True show ?thesis by (simp add: is_even_def)
next
  case False
  then have m: "\<bar>sint n\<bar> mod 2 = 1" by presburger
  from False have "sint n \<noteq> 0" by auto
  then have "sgn (sint n) = 1 \<or> sgn (sint n) = -1" by (auto simp: sgn_if)
  then have "c_rem n 2 = 1 \<or> c_rem n 2 = -1"
    using m by (auto simp: c_rem_two)
  then have "c_rem n 2 \<noteq> 0" by auto
  with False show ?thesis by (simp add: is_even_def)
qed

subsection \<open>Squares of 32-bit values\<close>

lemma sint_square: "sint (square n) = signed_take_bit 31 (sint n * sint n)"
  by (simp add: square_def sint_word_mult)

lemma square_word_of_int: "square n = word_of_int (sint n * sint n)"
  by (simp add: square_def)

lemma uint_square: "uint (square n) = (sint n * sint n) mod 2 ^ 32"
  by (simp only: square_word_of_int uint_word_of_int_eq take_bit_eq_mod) simp

lemma sint_square_mod: "sint (square n) = (sint n * sint n + 2 ^ 31) mod 2 ^ 32 - 2 ^ 31"
  by (simp add: sint_square signed_take_bit_eq_take_bit_shift take_bit_eq_mod)

lemma is_even_square: "is_even (square n) \<longleftrightarrow> is_even n"
  by (simp add: is_even_iff sint_square even_signed_take_bit_iff)

subsection \<open>The loop of sum\<close>

lemma sum_loop_foldl: "sum_loop tot numbers = foldl (+) tot numbers"
  by (induction numbers arbitrary: tot) simp_all

lemma sum_loop_shift: "sum_loop tot numbers = tot + sum_loop 0 numbers"
proof (induction numbers arbitrary: tot)
  case Nil
  show ?case by simp
next
  case (Cons num numbers)
  have "sum_loop tot (num # numbers) = sum_loop (tot + num) numbers" by simp
  also have "\<dots> = (tot + num) + sum_loop 0 numbers" by (rule Cons.IH)
  also have "\<dots> = tot + (num + sum_loop 0 numbers)" by (simp add: add.assoc)
  also have "num + sum_loop 0 numbers = sum_loop (0 + num) numbers"
    by (simp add: Cons.IH [of num])
  finally show ?case by simp
qed

lemma sum_loop_append: "sum_loop tot (A @ B) = sum_loop (sum_loop tot A) B"
  by (induction A arbitrary: tot) simp_all

subsection \<open>The loop of format\_vector\<close>

text \<open>After the first label the flag stays cleared: every later label brings its separator.\<close>

lemma format_vector_loop_False:
  "format_vector_loop (result, False) vec =
     (result @ concat (map (\<lambda>s. '', '' @ quote_label s) vec), False)"
  by (induction vec arbitrary: result) (simp_all add: quote_label_def)

lemma join_Cons: "join sep (s # ss) = s @ concat (map (\<lambda>t. sep @ t) ss)"
  by (induction ss arbitrary: s) simp_all

lemma format_vector_eq_render: "format_vector labels = render_spec labels"
proof (cases labels)
  case Nil
  then show ?thesis by (simp add: format_vector_def render_spec_def)
next
  case (Cons s ss)
  then show ?thesis
    by (simp add: format_vector_def render_spec_def format_vector_loop_False join_Cons
        quote_label_def comp_def)
qed

subsection \<open>The values of the demonstration run\<close>

lemma evens_main: "get_even_numbers [1, 2, 3, 4, 5, 6] = [2, 4, 6]"
  by (simp add: get_even_numbers_def is_even_iff)

lemma squares_main: "square_numbers [2, 4, 6] = [4, 16, 36]"
  by (simp add: square_numbers_def square_def)

lemma sum_main: "sum_numbers [4, 16, 36] = (56 :: int32)"
  by (simp add: sum_numbers_def)

lemma to_string_digit:
  "to_string 1 = ''1''" "to_string 2 = ''2''" "to_string 3 = ''3''"
  "to_string 4 = ''4''" "to_string 5 = ''5''" "to_string 6 = ''6''"
  by (simp_all add: to_string_def)

lemma to_string_two_digits:
  "to_string 16 = ''16''" "to_string 36 = ''36''" "to_string 56 = ''56''"
  by (simp_all add: to_string_def)

subsection \<open>No failure on any input\<close>

text \<open>
  The divisor of the lambda is the literal 2, neither 0 nor -1: the remainder never
  traps, whatever the element is, and the filter has a result on every vector.
\<close>

lemma is_even_checked_total: "is_even_checked n = Inr (is_even n)"
  by (simp add: is_even_checked_def c_rem_checked_def is_even_def)

lemma get_even_numbers_checked_total:
  "get_even_numbers_checked numbers = Inr (get_even_numbers numbers)"
  by (induction numbers) (simp_all add: is_even_checked_total get_even_numbers_def)

text \<open>
  Each of the four format strings is valid for one argument, whatever the argument is
  (the braces of a rendered list are in the argument, not in the format string).
\<close>

lemma format_checked_lines:
  "format_checked ''Original numbers: {}\<newline>'' [arg] =
     Inr (''Original numbers: '' @ arg @ ''\<newline>'')"
  "format_checked ''Even numbers: {}\<newline>'' [arg] =
     Inr (''Even numbers: '' @ arg @ ''\<newline>'')"
  "format_checked ''Squared even numbers: {}\<newline>'' [arg] =
     Inr (''Squared even numbers: '' @ arg @ ''\<newline>'')"
  "format_checked ''Sum of squared even numbers: {}\<newline>'' [arg] =
     Inr (''Sum of squared even numbers: '' @ arg @ ''\<newline>'')"
  by (simp_all add: emit_def)

lemma format_str_lines:
  "format_str ''Original numbers: {}\<newline>'' arg = ''Original numbers: '' @ arg @ ''\<newline>''"
  "format_str ''Even numbers: {}\<newline>'' arg = ''Even numbers: '' @ arg @ ''\<newline>''"
  "format_str ''Squared even numbers: {}\<newline>'' arg =
     ''Squared even numbers: '' @ arg @ ''\<newline>''"
  "format_str ''Sum of squared even numbers: {}\<newline>'' arg =
     ''Sum of squared even numbers: '' @ arg @ ''\<newline>''"
  by simp_all

lemma run_checked_total:
  "run_checked numbers cout =
     Inr (0, cout
        @ ''Original numbers: '' @ format_vector (map to_string numbers) @ ''\<newline>''
        @ ''Even numbers: '' @ format_vector (map to_string (get_even_numbers numbers))
        @ ''\<newline>''
        @ ''Squared even numbers: ''
        @ format_vector (map to_string (square_numbers (get_even_numbers numbers)))
        @ ''\<newline>''
        @ ''Sum of squared even numbers: ''
        @ to_string (sum_numbers (square_numbers (get_even_numbers numbers))) @ ''\<newline>'')"
  by (simp only: run_checked_def get_even_numbers_checked_total Let_def format_checked_lines
      sum.case prod.inject append_assoc)

lemma main_eq:
  "main cout =
     (0, cout
        @ ''Original numbers: '' @ format_vector (map to_string [1, 2, 3, 4, 5, 6]) @ ''\<newline>''
        @ ''Even numbers: ''
        @ format_vector (map to_string (get_even_numbers [1, 2, 3, 4, 5, 6])) @ ''\<newline>''
        @ ''Squared even numbers: ''
        @ format_vector (map to_string (square_numbers (get_even_numbers [1, 2, 3, 4, 5, 6])))
        @ ''\<newline>''
        @ ''Sum of squared even numbers: ''
        @ to_string (sum_numbers (square_numbers (get_even_numbers [1, 2, 3, 4, 5, 6])))
        @ ''\<newline>'')"
  by (simp only: main_def Let_def format_str_lines format_int_def append_assoc)

section \<open>The claims\<close>

text \<open>
  C1. Started on any contents of standard output, \<^verbatim>\<open>main\<close> (which takes no parameter and
  works on the fixed sequence 1, 2, 3, 4, 5, 6) appends exactly four lines, in this order:
  the original numbers, the even numbers, the squared even numbers, each rendered as a
  brace list of quoted labels, and the sum 56.
\<close>

theorem main_output:
  \<open>snd (main cout) =
     cout @ ''Original numbers: {"1", "2", "3", "4", "5", "6"}\<newline>''
          @ ''Even numbers: {"2", "4", "6"}\<newline>''
          @ ''Squared even numbers: {"4", "16", "36"}\<newline>''
          @ ''Sum of squared even numbers: 56\<newline>''\<close>
  by (simp add: main_def Let_def evens_main squares_main sum_main to_string_digit
      to_string_two_digits format_vector_def format_int_def)

text \<open>
  C2. For every sequence S, also the empty one, \<^verbatim>\<open>get_even_numbers\<close> keeps exactly the
  elements whose value is 0 modulo 2, in their order: its result is the filter of S by
  that test and a subsequence of S. Zero and the negative even numbers are kept, as on
  the sequence 0, -1, -2, 3, -4, 7.
\<close>

theorem get_even_numbers_spec:
  "get_even_numbers S = filter (\<lambda>n. sint n mod 2 = 0) S
   \<and> subseq (get_even_numbers S) S
   \<and> get_even_numbers [] = []
   \<and> get_even_numbers [0, - 1, - 2, 3, - 4, 7] = [0, - 2, - 4]"
proof -
  have p: "is_even = (\<lambda>n. sint n mod 2 = 0)"
    by (rule ext) (simp add: is_even_iff even_iff_mod_2_eq_zero)
  have "get_even_numbers [0, - 1, - 2, 3, - 4, 7] = [0, - 2, - 4]"
    by (simp add: get_even_numbers_def is_even_iff)
  then show ?thesis
    by (simp add: get_even_numbers_def p)
qed

text \<open>
  C3. For every sequence S, \<^verbatim>\<open>square_numbers\<close> returns a sequence of the same length
  whose element at each position is the product n * n of the element n of S at that
  position, in the arithmetic of \<^verbatim>\<open>int\<close>; where the mathematical square fits into 32
  bits, the element read as a number is that square.
\<close>

theorem square_numbers_spec:
  "length (square_numbers S) = length S
   \<and> (\<forall>i<length S. square_numbers S ! i = S ! i * S ! i
        \<and> (- (2 ^ 31) \<le> sint (S ! i) * sint (S ! i) \<and> sint (S ! i) * sint (S ! i) < 2 ^ 31
             \<longrightarrow> sint (square_numbers S ! i) = sint (S ! i) * sint (S ! i)))"
  by (simp add: square_numbers_def sint_square signed_take_bit_int_eq_self)
    (simp add: square_def)

theorem square_numbers_spec_witness:
  "(1 :: nat) < length [3, - 4 :: int32]
   \<and> length (square_numbers [3, - 4]) = 2
   \<and> square_numbers [3, - 4] ! 1 = 16
   \<and> sint (square_numbers [3, - 4] ! 1) = 16"
  using square_numbers_spec [of "[3, - 4]"] by simp

text \<open>
  C4. For every integer element type of a fixed width, \<^verbatim>\<open>sum\<close> is the left fold of
  addition over the sequence, from left to right and starting at 0; the sum of the empty
  sequence is 0.
\<close>

theorem sum_numbers_foldl:
  "sum_numbers S = foldl (+) 0 S \<and> sum_numbers [] = 0"
  by (simp add: sum_numbers_def sum_loop_foldl)

text \<open>
  C5. Summation is additive over concatenation: the sum of A followed by B is the sum of
  A plus the sum of B, and the sum of the empty sequence is 0.
\<close>

theorem sum_numbers_append:
  "sum_numbers (A @ B) = sum_numbers A + sum_numbers B \<and> sum_numbers [] = 0"
  by (simp add: sum_numbers_def sum_loop_append sum_loop_shift [of "sum_loop 0 A"])

text \<open>
  C6. For every list of labels, \<^verbatim>\<open>format_vector\<close> returns the rendering that the
  specification describes: an opening brace, the labels in input order, each between
  double quotes and joined by a comma and a space, and a closing brace. The empty list
  gives the two braces alone, and the labels of 1 and 2 give \<^verbatim>\<open>{"1", "2"}\<close>.
\<close>

theorem format_vector_render:
  \<open>format_vector labels = render_spec labels
   \<and> format_vector [] = ''{}''
   \<and> format_vector (map to_string [1, 2]) = ''{"1", "2"}''\<close>
  by (simp add: format_vector_eq_render to_string_digit)
    (simp add: render_spec_def quote_label_def)

text \<open>
  C7. \<^verbatim>\<open>get_even_numbers\<close> is idempotent: applied to its own result, it returns that
  result.
\<close>

theorem get_even_numbers_idem:
  "get_even_numbers (get_even_numbers S) = get_even_numbers S"
  by (simp add: get_even_numbers_def)

text \<open>
  C8. The program always completes with the exit status 0 and has no failure path:
  with the failures of the source's primitives as values, \<^verbatim>\<open>main\<close> reaches its
  \<^verbatim>\<open>return 0\<close> from every state of standard output, with the result of the model
  without failures. Every operation of the pipeline is total: on every input vector S
  the filter has a result (its remainder never traps), and the whole run (filter,
  squares, sum, labels, rendering and the four formatted lines) ends with the status 0
  and the output that those operations give; squaring, summing, labelling and rendering
  call no primitive that can fail. The empty sequence is a valid input of each of them
  and of the run.
\<close>

theorem main_exit_status:
  "main_checked cout = Inr (main cout)
   \<and> fst (main cout) = 0
   \<and> get_even_numbers_checked S = Inr (get_even_numbers S)
   \<and> run_checked S cout =
       Inr (0, cout
          @ ''Original numbers: '' @ format_vector (map to_string S) @ ''\<newline>''
          @ ''Even numbers: '' @ format_vector (map to_string (get_even_numbers S))
          @ ''\<newline>''
          @ ''Squared even numbers: ''
          @ format_vector (map to_string (square_numbers (get_even_numbers S))) @ ''\<newline>''
          @ ''Sum of squared even numbers: ''
          @ to_string (sum_numbers (square_numbers (get_even_numbers S))) @ ''\<newline>'')
   \<and> run_checked [] cout =
       Inr (0, cout @ ''Original numbers: {}\<newline>Even numbers: {}\<newline>''
                    @ ''Squared even numbers: {}\<newline>Sum of squared even numbers: 0\<newline>'')
   \<and> get_even_numbers [] = []
   \<and> square_numbers [] = []
   \<and> sum_numbers [] = 0
   \<and> format_vector [] = ''{}''"
proof -
  have m: "main_checked cout = Inr (main cout)"
    by (simp only: main_checked_def run_checked_total main_eq)
  have z: "fst (main cout) = 0"
    by (simp only: main_eq fst_conv)
  have e: "run_checked [] cout =
       Inr (0, cout @ ''Original numbers: {}\<newline>Even numbers: {}\<newline>''
                    @ ''Squared even numbers: {}\<newline>Sum of squared even numbers: 0\<newline>'')"
    by (simp add: run_checked_total get_even_numbers_def square_numbers_def sum_numbers_def
        format_vector_def to_string_def)
  have r: "get_even_numbers [] = [] \<and> square_numbers [] = [] \<and> sum_numbers [] = 0
           \<and> format_vector [] = ''{}''"
    by (simp add: get_even_numbers_def square_numbers_def sum_numbers_def format_vector_def)
  from m z get_even_numbers_checked_total run_checked_total e r show ?thesis
    by (intro conjI) blast+
qed

text \<open>
  C9. \<^verbatim>\<open>square_numbers\<close> has no error result, and every element it stores is the
  mathematical square of the input element modulo 2^32, read back as a signed 32-bit
  value; so a square outside the 32-bit signed range wraps around, as for 46341, 65536
  and -2147483648.
\<close>

theorem square_numbers_wraps:
  "map uint (square_numbers S) = map (\<lambda>n. (sint n * sint n) mod 2 ^ 32) S
   \<and> map sint (square_numbers S) = map (\<lambda>n. (sint n * sint n + 2 ^ 31) mod 2 ^ 32 - 2 ^ 31) S
   \<and> map sint (square_numbers [46341, 65536, - 2147483648]) = [- 2147479015, 0, 0]"
proof -
  have "map sint (square_numbers [46341, 65536, - 2147483648]) = [- 2147479015, 0, 0]"
    by (simp add: square_numbers_def square_def)
  then show ?thesis
    by (simp add: square_numbers_def uint_square sint_square_mod comp_def)
qed

text \<open>
  C10. Filtering the even numbers commutes with squaring, for every sequence: the square
  of a number is even exactly when the number is, also when the square wraps around.
\<close>

theorem get_even_square_commute:
  "get_even_numbers (square_numbers S) = square_numbers (get_even_numbers S)"
  by (simp add: get_even_numbers_def square_numbers_def filter_map comp_def is_even_square)

end
